theory Spec2Isabelle
  imports Complex_Main
begin

section \<open>Strings and paths\<close>

text \<open>
  The driver builds every path with \<^verbatim>\<open>os.path.join\<close> and formats the step and the image
  counter into file names with f-strings. \<open>str\<close> is Python's decimal \<^verbatim>\<open>str(int)\<close>;
  \<open>path_join\<close> is \<^verbatim>\<open>posixpath.join\<close> for two components.
\<close>

definition digit_char :: "nat \<Rightarrow> char" where
  "digit_char d = ''0123456789'' ! d"

fun digits :: "nat \<Rightarrow> string" where
  "digits n = (if n < 10 then [digit_char n] else digits (n div 10) @ [digit_char (n mod 10)])"

definition str :: "int \<Rightarrow> string" where
  "str i = (if i < 0 then CHR ''-'' # digits (nat (- i)) else digits (nat i))"

definition path_join :: "string \<Rightarrow> string \<Rightarrow> string" where
  "path_join a b =
     (if b \<noteq> [] \<and> hd b = CHR ''/'' then b
      else if a = [] \<or> last a = CHR ''/'' then a @ b
      else a @ ''/'' @ b)"

section \<open>Data\<close>

text \<open>
  Values owned by the tensor framework (ray bundles, pixel batches, parameter and optimizer
  state, gradients, image contents) are opaque to the driver: they are values of the type
  parameter \<open>'t\<close>. The scalars the driver logs are values of \<open>'f\<close>; nothing is assumed about
  their arithmetic, \<^verbatim>\<open>np.mean\<close> is a collaborator.
\<close>

datatype py_error = FileNotFoundError | UnpicklingError | ZeroDivisionError | IndexError

text \<open>
  The settings the driver reads itself. The remaining hyperparameters of the source's config
  are only forwarded to the constructors of the collaborators.
\<close>

record config =
  dataset_name :: string
  base_dir :: string
  log_dir :: string
  factor :: int
  batch_size :: int
  n_poses :: int
  chunks :: int
  continue_training :: bool
  do_eval :: bool
  max_steps :: int
  save_every :: int
  render_every :: int

text \<open>The model object: its \<^verbatim>\<open>state_dict()\<close> and the train/eval mode flag.\<close>

record 't mipnerf =
  params :: 't
  training :: bool

text \<open>The dictionary \<^verbatim>\<open>save_model\<close> builds (train.py, line 115).\<close>

record 't model_info =
  state_dict :: 't
  optimizer :: 't
  step :: int

text \<open>
  The render dataloader, as far as the driver uses it: its ray batches in pose order
  (lines 98 and 100) and the attributes \<^verbatim>\<open>.h\<close> and \<^verbatim>\<open>.w\<close> read at line 101.
\<close>

record 't render_loader =
  loader_rays :: "'t list"
  loader_h :: int
  loader_w :: int

text \<open>
  The file system is a map from paths to contents. The TensorBoard directory
  \<^verbatim>\<open><log_dir>/train\<close> with its event files is one entry: the scalar events
  \<open>(tag, value, global_step)\<close> it holds, in order.
\<close>

datatype ('t, 'f) file_content =
    CheckpointFile "'t model_info"
  | ImageFile 't
  | VideoFile "'t list" nat nat
  | EventLog "(string \<times> 'f \<times> int) list"

text \<open>The calls with an effect outside the process, with their arguments.\<close>

datatype ('t, 'f) io_call =
    Print string
  | TorchSave "'t model_info" string
  | MakeDirs string
  | RmTree string
  | SummaryWriter string
  | AddScalar string 'f int
  | ImWrite string 't
  | MimWrite string "'t list" nat nat

record ('t, 'f) world =
  fs :: "string \<Rightarrow> ('t, 'f) file_content option"
  trace :: "('t, 'f) io_call list"

text \<open>
  The collaborators, none of which is defined in train.py. The two cyclic batch iterators
  are given by the batch they yield at each position; \<open>get_render_dataloader\<close> is the call
  of \<^verbatim>\<open>get_dataloader\<close> for the render split, given the config and the \<open>h\<close> and \<open>w\<close> of
  the call; the model, the loss, the optimizer and the schedule are functions of the
  objects they read, returning the objects they change. \<open>render_image\<close> is
  \<^verbatim>\<open>model.render_image(rays, h, w, chunks)\<close>; the image it returns is opaque.
\<close>

record ('t, 'f) collab =
  get_dataloader :: "config \<Rightarrow> string \<Rightarrow> nat \<Rightarrow> 't \<times> 't"
  get_render_dataloader :: "config \<Rightarrow> int \<Rightarrow> int \<Rightarrow> 't render_loader"
  MipNeRF :: "config \<Rightarrow> 't"
  AdamW :: "config \<Rightarrow> 't \<Rightarrow> 't"
  MipLRDecay :: "config \<Rightarrow> 't \<Rightarrow> 't \<times> 't"
  NeRFLoss :: "config \<Rightarrow> 't list \<Rightarrow> 't \<Rightarrow> 't \<Rightarrow> 'f \<times> 'f list"
  forward :: "'t mipnerf \<Rightarrow> 't \<Rightarrow> 't list"
  lossmult :: "'t \<Rightarrow> 't"
  backward :: "'t mipnerf \<Rightarrow> 't \<Rightarrow> 't \<Rightarrow> 't"
  optimizer_step :: "'t \<Rightarrow> 't \<Rightarrow> 't \<Rightarrow> 't \<times> 't"
  scheduler_step :: "'t \<Rightarrow> 't \<Rightarrow> 't \<times> 't"
  get_last_lr :: "'t \<Rightarrow> 'f list"
  np_mean :: "'f list \<Rightarrow> 'f"
  mse_to_psnr :: "'t \<Rightarrow> 't \<Rightarrow> 'f"
  render_image :: "'t mipnerf \<Rightarrow> 't \<Rightarrow> int \<Rightarrow> int \<Rightarrow> int \<Rightarrow> 't"

text \<open>The local variables of \<^verbatim>\<open>train_model\<close> that live across iterations, and the world.\<close>

record ('t, 'f) state =
  model :: "'t mipnerf"
  optim :: 't
  scheduler :: 't
  data :: nat
  eval_data :: "nat option"
  world :: "('t, 'f) world"

text \<open>A run returns normally, or an exception leaves it: the error and the world at the raise.\<close>

datatype ('t, 'f) outcome = Ok "('t, 'f) state" | Raised py_error "('t, 'f) world"

definition and_then ::
  "('t, 'f) outcome \<Rightarrow> (('t, 'f) state \<Rightarrow> ('t, 'f) outcome) \<Rightarrow> ('t, 'f) outcome" where
  "and_then r f = (case r of Ok st \<Rightarrow> f st | Raised e w \<Rightarrow> Raised e w)"

section \<open>Library calls\<close>

text \<open>
  Writes and directory operations are taken to succeed; the only failing file operation is
  \<^verbatim>\<open>torch.load\<close>. \<^verbatim>\<open>xs[-1]\<close> on an empty sequence raises. The progress bars of tqdm
  and the moves between devices (\<^verbatim>\<open>.to\<close>, \<^verbatim>\<open>.detach().cpu().numpy()\<close>) change no value
  and are left out.
\<close>

definition py_last :: "'a list \<Rightarrow> py_error + 'a" where
  "py_last xs = (if xs = [] then Inl IndexError else Inr (last xs))"

definition print :: "string \<Rightarrow> ('t, 'f) world \<Rightarrow> ('t, 'f) world" where
  "print msg w = w\<lparr>trace := trace w @ [Print msg]\<rparr>"

definition torch_save :: "'t model_info \<Rightarrow> string \<Rightarrow> ('t, 'f) world \<Rightarrow> ('t, 'f) world" where
  "torch_save info p w =
     w\<lparr>fs := (fs w)(p \<mapsto> CheckpointFile info), trace := trace w @ [TorchSave info p]\<rparr>"

definition torch_load :: "string \<Rightarrow> ('t, 'f) world \<Rightarrow> py_error + 't model_info" where
  "torch_load p w =
     (case fs w p of
        None \<Rightarrow> Inl FileNotFoundError
      | Some (CheckpointFile info) \<Rightarrow> Inr info
      | Some _ \<Rightarrow> Inl UnpicklingError)"

definition makedirs :: "string \<Rightarrow> ('t, 'f) world \<Rightarrow> ('t, 'f) world" where
  "makedirs p w = w\<lparr>trace := trace w @ [MakeDirs p]\<rparr>"

definition rmtree :: "string \<Rightarrow> ('t, 'f) world \<Rightarrow> ('t, 'f) world" where
  "rmtree p w =
     w\<lparr>fs := (\<lambda>q. if q = p \<or> take (Suc (length p)) q = p @ ''/'' then None else fs w q),
       trace := trace w @ [RmTree p]\<rparr>"

text \<open>
  \<^verbatim>\<open>tb.SummaryWriter(dir)\<close> adds a new event file to the directory: events already there
  stay in the stream.
\<close>

definition events_at :: "string \<Rightarrow> ('t, 'f) world \<Rightarrow> (string \<times> 'f \<times> int) list" where
  "events_at p w = (case fs w p of Some (EventLog es) \<Rightarrow> es | _ \<Rightarrow> [])"

definition summary_writer :: "string \<Rightarrow> ('t, 'f) world \<Rightarrow> ('t, 'f) world" where
  "summary_writer p w =
     w\<lparr>fs := (fs w)(p \<mapsto> EventLog (events_at p w)), trace := trace w @ [SummaryWriter p]\<rparr>"

definition add_scalar ::
  "string \<Rightarrow> string \<Rightarrow> 'f \<Rightarrow> int \<Rightarrow> ('t, 'f) world \<Rightarrow> ('t, 'f) world" where
  "add_scalar logger tag v global_step w =
     w\<lparr>fs := (fs w)(logger \<mapsto> EventLog (events_at logger w @ [(tag, v, global_step)])),
       trace := trace w @ [AddScalar tag v global_step]\<rparr>"

definition imwrite :: "string \<Rightarrow> 't \<Rightarrow> ('t, 'f) world \<Rightarrow> ('t, 'f) world" where
  "imwrite p img w = w\<lparr>fs := (fs w)(p \<mapsto> ImageFile img), trace := trace w @ [ImWrite p img]\<rparr>"

definition mimwrite ::
  "string \<Rightarrow> 't list \<Rightarrow> nat \<Rightarrow> nat \<Rightarrow> ('t, 'f) world \<Rightarrow> ('t, 'f) world" where
  "mimwrite p frames fps quality w =
     w\<lparr>fs := (fs w)(p \<mapsto> VideoFile frames fps quality),
       trace := trace w @ [MimWrite p frames fps quality]\<rparr>"

section \<open>The training driver (train.py)\<close>

definition model_save_path :: "config \<Rightarrow> string" where
  "model_save_path c = path_join (log_dir c) ''model.pt''"

definition train_log_dir :: "config \<Rightarrow> string" where
  "train_log_dir c = path_join (log_dir c) ''train''"

text \<open>The paths of lines 84, 103, 106 and 108.\<close>

definition checkpoint_path :: "config \<Rightarrow> int \<Rightarrow> string" where
  "checkpoint_path c stp = path_join (log_dir c) (''model_'' @ str stp @ ''.pt'')"

definition step_dir :: "config \<Rightarrow> int \<Rightarrow> string" where
  "step_dir c stp = path_join (log_dir c) (''step_'' @ str stp)"

definition image_path :: "config \<Rightarrow> int \<Rightarrow> nat \<Rightarrow> string" where
  "image_path c stp img_cnt =
     path_join (log_dir c) (''step_'' @ str stp @ ''/image_'' @ str (int img_cnt) @ ''.png'')"

definition video_path :: "config \<Rightarrow> int \<Rightarrow> string" where
  "video_path c stp = path_join (log_dir c) (''step_'' @ str stp @ ''/video.mp4'')"

text \<open>\<^verbatim>\<open>save_model\<close>, lines 114 to 116.\<close>

definition save_model ::
  "'t mipnerf \<Rightarrow> 't \<Rightarrow> int \<Rightarrow> string \<Rightarrow> ('t, 'f) world \<Rightarrow> ('t, 'f) world" where
  "save_model m opt stp p w =
     torch_save \<lparr>state_dict = params m, optimizer = opt, step = stp\<rparr> p w"

text \<open>
  \<^verbatim>\<open>eval_model\<close>, lines 118 to 125: the model after the call, one PSNR per level, and the
  position of the iterator after \<^verbatim>\<open>next(data)\<close>.
\<close>

definition eval_model ::
  "('t, 'f) collab \<Rightarrow> config \<Rightarrow> 't mipnerf \<Rightarrow> nat \<Rightarrow> 't mipnerf \<times> 'f list \<times> nat" where
  "eval_model env c m k =
     (let m1 = m\<lparr>training := False\<rparr>;
          (rays, pixels) = get_dataloader env c ''test'' k;
          comp_rgb = forward env m1 rays;
          m2 = m1\<lparr>training := True\<rparr>
      in (m2, map (\<lambda>rgb. mse_to_psnr env rgb pixels) comp_rgb, Suc k))"

text \<open>Lines 47 to 53: the model, the optimizer and the start step after the optional resume.\<close>

definition load_checkpoint ::
  "config \<Rightarrow> 't mipnerf \<Rightarrow> 't \<Rightarrow> ('t, 'f) world \<Rightarrow>
     py_error + ('t mipnerf \<times> 't \<times> int \<times> ('t, 'f) world)" where
  "load_checkpoint c m opt w =
     (if continue_training c then
        (case torch_load (model_save_path c) w of
           Inl e \<Rightarrow> Inl e
         | Inr info \<Rightarrow>
             Inr (m\<lparr>params := state_dict info\<rparr>, optimizer info, step info,
                  print ''Loaded model and optimizer from disk.'' w))
      else Inr (m, opt, 0, w))"

text \<open>Lines 64 to 70: the loss and the per-level PSNR of the step's batch.\<close>

definition loss_and_psnr ::
  "('t, 'f) collab \<Rightarrow> config \<Rightarrow> ('t, 'f) state \<Rightarrow> 'f \<times> 'f list" where
  "loss_and_psnr env c st =
     (let m = (model st)\<lparr>training := True\<rparr>;
          (rays, pixels) = get_dataloader env c ''train'' (data st);
          comp_rgb = forward env m rays
      in NeRFLoss env c comp_rgb pixels (lossmult env rays))"

text \<open>Lines 64 to 81: one optimisation step and its five scalars.\<close>

definition stepping ::
  "('t, 'f) collab \<Rightarrow> config \<Rightarrow> string \<Rightarrow> int \<Rightarrow> ('t, 'f) state \<Rightarrow> ('t, 'f) outcome" where
  "stepping env c logger stp st =
     (let m = (model st)\<lparr>training := True\<rparr>;
          (rays, pixels) = get_dataloader env c ''train'' (data st);
          (loss_val, psnr) = loss_and_psnr env c st;
          grads = backward env m rays pixels;
          (opt1, p1) = optimizer_step env (optim st) (params m) grads;
          (sch1, opt2) = scheduler_step env (scheduler st) opt1;
          st1 = st\<lparr>model := m\<lparr>params := p1\<rparr>, optim := opt2, scheduler := sch1,
                   data := Suc (data st)\<rparr>;
          w1 = add_scalar logger ''train/loss'' loss_val stp (world st);
          w2 = add_scalar logger ''train/coarse_psnr'' (np_mean env (butlast psnr)) stp w1
      in case py_last psnr of
           Inl e \<Rightarrow> Raised e w2
         | Inr fine \<Rightarrow>
             (let w3 = add_scalar logger ''train/fine_psnr'' fine stp w2;
                  w4 = add_scalar logger ''train/avg_psnr'' (np_mean env psnr) stp w3
              in case py_last (get_last_lr env sch1) of
                   Inl e \<Rightarrow> Raised e w4
                 | Inr lr \<Rightarrow> Ok (st1\<lparr>world := add_scalar logger ''train/lr'' lr stp w4\<rparr>)))"

text \<open>Lines 83 to 93: the checkpoint pair and, with evaluation data, the three eval scalars.\<close>

definition saving ::
  "('t, 'f) collab \<Rightarrow> config \<Rightarrow> string \<Rightarrow> int \<Rightarrow> ('t, 'f) state \<Rightarrow> ('t, 'f) outcome" where
  "saving env c logger stp st =
     (if save_every c = 0 then Raised ZeroDivisionError (world st)
      else if stp mod save_every c = 0 then
        (let w1 = save_model (model st) (optim st) stp (checkpoint_path c stp) (world st);
             w2 = save_model (model st) (optim st) stp (model_save_path c) w1
         in case eval_data st of
              None \<Rightarrow> Ok (st\<lparr>world := w2\<rparr>)
            | Some k \<Rightarrow>
                (let (m1, psnr, k1) = eval_model env c (model st) k;
                     st1 = st\<lparr>model := m1, eval_data := Some k1\<rparr>;
                     w3 = add_scalar logger ''eval/coarse_psnr'' (np_mean env (butlast psnr)) stp w2
                 in case py_last psnr of
                      Inl e \<Rightarrow> Raised e w3
                    | Inr fine \<Rightarrow>
                        Ok (st1\<lparr>world :=
                              add_scalar logger ''eval/avg_psnr'' (np_mean env psnr) stp
                                (add_scalar logger ''eval/fine_psnr'' fine stp w3)\<rparr>)))
      else Ok st)"

text \<open>Lines 104 to 107: one image file per frame, numbered from \<open>img_cnt\<close>.\<close>

fun write_images ::
  "config \<Rightarrow> int \<Rightarrow> nat \<Rightarrow> 't list \<Rightarrow> ('t, 'f) world \<Rightarrow> ('t, 'f) world" where
  "write_images c stp img_cnt [] w = w"
| "write_images c stp img_cnt (img # rgb_frames) w =
     write_images c stp (Suc img_cnt) rgb_frames
       (imwrite (image_path c stp img_cnt) img w)"

text \<open>Lines 95 to 108: the preview frames, their image files and the video.\<close>

definition rendering ::
  "('t, 'f) collab \<Rightarrow> config \<Rightarrow> 't render_loader \<Rightarrow> int \<Rightarrow> ('t, 'f) state \<Rightarrow>
     ('t, 'f) outcome" where
  "rendering env c render_data stp st =
     (if render_every c = 0 then Raised ZeroDivisionError (world st)
      else if stp mod render_every c = 0 then
        (let m = (model st)\<lparr>training := False\<rparr>;
             w1 = print (''Generating Video using '' @
                         str (int (length (loader_rays render_data))) @
                         '' different view points'') (world st);
             rgb_frames = map (\<lambda>rays. render_image env m rays (loader_h render_data)
                                        (loader_w render_data) (chunks c))
                              (loader_rays render_data);
             w2 = makedirs (step_dir c stp) w1;
             w3 = write_images c stp 0 rgb_frames w2;
             w4 = mimwrite (video_path c stp) rgb_frames 30 10 w3
         in Ok (st\<lparr>model := m, world := w4\<rparr>))
      else Ok st)"

text \<open>The body of the loop, lines 64 to 108.\<close>

definition train_iteration ::
  "('t, 'f) collab \<Rightarrow> config \<Rightarrow> 't render_loader \<Rightarrow> string \<Rightarrow> int \<Rightarrow> ('t, 'f) state \<Rightarrow>
     ('t, 'f) outcome" where
  "train_iteration env c render_data logger stp st =
     and_then (and_then (stepping env c logger stp st) (saving env c logger stp))
       (rendering env c render_data stp)"

text \<open>The loop of line 63 over the steps of \<^verbatim>\<open>range(start_step, config.max_steps)\<close>.\<close>

fun train_loop ::
  "('t, 'f) collab \<Rightarrow> config \<Rightarrow> 't render_loader \<Rightarrow> string \<Rightarrow> int list \<Rightarrow> ('t, 'f) state \<Rightarrow>
     ('t, 'f) outcome" where
  "train_loop env c render_data logger [] st = Ok st"
| "train_loop env c render_data logger (stp # steps) st =
     and_then (train_iteration env c render_data logger stp st)
       (train_loop env c render_data logger steps)"

text \<open>
  Lines 17 to 61: everything before the loop. The result is the state the loop starts in
  and the start step, or the error of the load.
\<close>

definition startup ::
  "('t, 'f) collab \<Rightarrow> config \<Rightarrow> ('t, 'f) world \<Rightarrow>
     py_error \<times> ('t, 'f) world + ('t, 'f) state \<times> int" where
  "startup env c w0 =
     (let m0 = \<lparr>params = MipNeRF env c, training = True\<rparr>;
          opt0 = AdamW env c (params m0)
      in case load_checkpoint c m0 opt0 w0 of
           Inl e \<Rightarrow> Inl (e, w0)
         | Inr (m1, opt1, start_step, w1) \<Rightarrow>
             (let (sch, opt2) = MipLRDecay env c opt1;
                  m2 = m1\<lparr>training := True\<rparr>;
                  w2 = makedirs (log_dir c) w1;
                  w3 = rmtree (train_log_dir c) w2;
                  w4 = summary_writer (train_log_dir c) w3
              in Inr (\<lparr>model = m2, optim = opt2, scheduler = sch, data = 0,
                       eval_data = (if do_eval c then Some 0 else None), world = w4\<rparr>,
                      start_step)))"

text \<open>\<^verbatim>\<open>train_model\<close>, lines 16 to 108, run on a file system.\<close>

definition train_model ::
  "('t, 'f) collab \<Rightarrow> config \<Rightarrow> (string \<Rightarrow> ('t, 'f) file_content option) \<Rightarrow> ('t, 'f) outcome" where
  "train_model env c files =
     (case startup env c \<lparr>fs = files, trace = []\<rparr> of
        Inl (e, w) \<Rightarrow> Raised e w
      | Inr (st, start_step) \<Rightarrow>
          train_loop env c (get_render_dataloader env c 200 200) (train_log_dir c)
            [start_step..max_steps c - 1] st)"

section \<open>Observations\<close>

text \<open>The world an outcome ends in, and what can be read off it.\<close>

definition final_world :: "('t, 'f) outcome \<Rightarrow> ('t, 'f) world" where
  "final_world r = (case r of Ok st \<Rightarrow> world st | Raised e w \<Rightarrow> w)"

text \<open>The scalar events of a trace, the paths checkpoints were written to, the directories
  made, and the frames handed to imageio, each in the order of the calls.\<close>

definition scalars_of :: "('t, 'f) io_call list \<Rightarrow> (string \<times> 'f \<times> int) list" where
  "scalars_of tr = concat (map (\<lambda>ev. case ev of AddScalar tag v s \<Rightarrow> [(tag, v, s)] | _ \<Rightarrow> []) tr)"

definition saved_paths :: "('t, 'f) io_call list \<Rightarrow> string list" where
  "saved_paths tr = concat (map (\<lambda>ev. case ev of TorchSave info p \<Rightarrow> [p] | _ \<Rightarrow> []) tr)"

definition made_dirs :: "('t, 'f) io_call list \<Rightarrow> string list" where
  "made_dirs tr = concat (map (\<lambda>ev. case ev of MakeDirs p \<Rightarrow> [p] | _ \<Rightarrow> []) tr)"

definition frames_of :: "('t, 'f) io_call list \<Rightarrow> 't list" where
  "frames_of tr =
     concat (map (\<lambda>ev. case ev of ImWrite p img \<Rightarrow> [img]
                            | MimWrite p frames fps quality \<Rightarrow> frames | _ \<Rightarrow> []) tr)"

text \<open>The mode the model object is in when \<^verbatim>\<open>train_model\<close> returns.\<close>

definition mode_at_exit :: "('t, 'f) outcome \<Rightarrow> bool option" where
  "mode_at_exit r = (case r of Ok st \<Rightarrow> Some (training (model st)) | Raised e w \<Rightarrow> None)"

text \<open>
  Two states of the driver that agree on every object the loop reads and on the calls made
  so far; they may sit on different file systems.
\<close>

definition same_run :: "('t, 'f) state \<Rightarrow> ('t, 'f) state \<Rightarrow> bool" where
  "same_run st1 st2 =
     (model st1 = model st2 \<and> optim st1 = optim st2 \<and> scheduler st1 = scheduler st2 \<and>
      data st1 = data st2 \<and> eval_data st1 = eval_data st2 \<and>
      trace (world st1) = trace (world st2))"

definition same_outcome :: "('t, 'f) outcome \<Rightarrow> ('t, 'f) outcome \<Rightarrow> bool" where
  "same_outcome r1 r2 =
     (case (r1, r2) of
        (Ok st1, Ok st2) \<Rightarrow> same_run st1 st2
      | (Raised e1 w1, Raised e2 w2) \<Rightarrow> e1 = e2 \<and> trace w1 = trace w2
      | _ \<Rightarrow> False)"

section \<open>A small run\<close>

text \<open>
  Collaborators over natural numbers and exact rationals, and two configurations: a fresh
  run of one step that saves and renders at step 0, and a resumed run of the same log
  directory.
\<close>

definition mean :: "rat list \<Rightarrow> rat" where
  "mean xs = sum_list xs / of_nat (length xs)"

definition demo_env :: "(nat, rat) collab" where
  "demo_env =
     \<lparr>get_dataloader = (\<lambda>c split k. (k, Suc k)),
      get_render_dataloader = (\<lambda>c h w. \<lparr>loader_rays = [7, 8], loader_h = h, loader_w = w\<rparr>),
      MipNeRF = (\<lambda>c. 0),
      AdamW = (\<lambda>c p. 0),
      MipLRDecay = (\<lambda>c opt. (0, opt)),
      NeRFLoss = (\<lambda>c comp_rgb pixels lm. (1 / 2, [1, 2, 6])),
      forward = (\<lambda>m rays. [params m, params m + rays]),
      lossmult = (\<lambda>rays. rays),
      backward = (\<lambda>m rays pixels. 1),
      optimizer_step = (\<lambda>opt p g. (Suc opt, p + g)),
      scheduler_step = (\<lambda>sch opt. (Suc sch, opt)),
      get_last_lr = (\<lambda>sch. [1 / of_nat (Suc sch)]),
      np_mean = mean,
      mse_to_psnr = (\<lambda>rgb pixels. of_nat (rgb + pixels)),
      render_image = (\<lambda>m rays h w chnks. params m + rays)\<rparr>"

definition demo_config :: config where
  "demo_config =
     \<lparr>dataset_name = ''blender'', base_dir = ''data'', log_dir = ''log'', factor = 2,
      batch_size = 1, n_poses = 2, chunks = 8192, continue_training = False, do_eval = False,
      max_steps = 1, save_every = 1, render_every = 1\<rparr>"

definition resume_config :: config where
  "resume_config = demo_config\<lparr>continue_training := True, max_steps := 5, save_every := 2,
     render_every := 3\<rparr>"

definition no_files :: "string \<Rightarrow> (nat, rat) file_content option" where
  "no_files = (\<lambda>p. None)"

definition old_files :: "string \<Rightarrow> (nat, rat) file_content option" where
  "old_files =
     no_files(''log/model.pt'' \<mapsto> CheckpointFile \<lparr>state_dict = 40, optimizer = 3, step = 3\<rparr>,
              ''log/train'' \<mapsto> EventLog [(''train/loss'', 9, 0), (''train/loss'', 8, 1)])"


text \<open>
  Another file system with the same latest checkpoint: no old log, and a stray video.
\<close>

definition other_files :: "string \<Rightarrow> (nat, rat) file_content option" where
  "other_files =
     old_files(''log/train'' := None, ''log/step_0/video.mp4'' \<mapsto> VideoFile [] 30 10)"

text \<open>
  Collaborators whose forward and backward pass read the mode of the model: the loss is 3
  in training mode and 7 in inference mode, the gradient 1 and 5.
\<close>

definition mode_env :: "(nat, rat) collab" where
  "mode_env =
     demo_env\<lparr>forward := (\<lambda>m rays. if training m then [3] else [7]),
              NeRFLoss := (\<lambda>c comp_rgb pixels lm. (of_nat (sum_list comp_rgb), [1, 2, 6])),
              backward := (\<lambda>m rays pixels. if training m then 1 else 5)\<rparr>"

text \<open>The state and the render loader the fresh run enters its loop with.\<close>

definition demo_state :: "(nat, rat) state" where
  "demo_state =
     \<lparr>model = \<lparr>params = 0, training = True\<rparr>, optim = 0, scheduler = 0, data = 0,
      eval_data = None, world = \<lparr>fs = no_files, trace = []\<rparr>\<rparr>"

definition demo_loader :: "nat render_loader" where
  "demo_loader = get_render_dataloader demo_env demo_config 200 200"

section \<open>Facts about strings and paths\<close>

declare digits.simps [simp del]

lemma digit_char_inj: "a < 10 \<Longrightarrow> b < 10 \<Longrightarrow> digit_char a = digit_char b \<Longrightarrow> a = b"
proof -
  assume a: "a < 10" and b: "b < 10" and e: "digit_char a = digit_char b"
  have d: "distinct ''0123456789''" by simp
  from a b e show ?thesis
    unfolding digit_char_def using d nth_eq_iff_index_eq[OF d, of a b] by simp
qed

lemma digits_not_Nil: "digits n \<noteq> []"
  by (subst digits.simps) simp

lemma digits_length: "10 \<le> n \<Longrightarrow> 2 \<le> length (digits n)"
  using digits_not_Nil[of "n div 10"]
  by (subst digits.simps) (cases "digits (n div 10)"; simp)

lemma digits_small: "n < 10 \<Longrightarrow> digits n = [digit_char n]"
  by (subst digits.simps) simp

lemma digits_large: "10 \<le> n \<Longrightarrow> digits n = digits (n div 10) @ [digit_char (n mod 10)]"
  by (subst digits.simps) simp

lemma digits_inj: "digits n = digits m \<Longrightarrow> n = m"
proof (induction n arbitrary: m rule: digits.induct)
  case (1 n)
  show ?case
  proof (cases "n < 10")
    case True
    then have ln: "length (digits n) = 1" by (simp add: digits_small)
    have "m < 10"
    proof (rule ccontr)
      assume "\<not> m < 10"
      then have "2 \<le> length (digits m)" using digits_length[of m] by simp
      with ln "1.prems" show False by simp
    qed
    with True "1.prems" show ?thesis
      by (simp add: digits_small digit_char_inj)
  next
    case False
    then have n10: "10 \<le> n" by simp
    have m10: "10 \<le> m"
    proof (rule ccontr)
      assume "\<not> 10 \<le> m"
      then have "length (digits m) = 1" by (simp add: digits_small)
      moreover have "2 \<le> length (digits n)" using digits_length[OF n10] .
      ultimately show False using "1.prems" by simp
    qed
    from "1.prems" have e: "digits (n div 10) @ [digit_char (n mod 10)] = digits (m div 10) @ [digit_char (m mod 10)]"
      by (simp add: digits_large[OF n10] digits_large[OF m10])
    then have e1: "digits (n div 10) = digits (m div 10)" and e2: "digit_char (n mod 10) = digit_char (m mod 10)"
      by simp_all
    from "1.IH"[OF False e1] have d: "n div 10 = m div 10" .
    from e2 have r: "n mod 10 = m mod 10" by (intro digit_char_inj) simp_all
    from d r show ?thesis by (metis div_mult_mod_eq)
  qed
qed

lemma digit_char_not_minus: "d < 10 \<Longrightarrow> digit_char d \<noteq> CHR ''-''"
proof -
  assume "d < 10"
  then have "d \<in> {0,1,2,3,4,5,6,7,8,9}" by auto
  then show ?thesis unfolding digit_char_def by auto
qed

lemma hd_digits: "\<exists>d<10. hd (digits n) = digit_char d"
proof (induction n rule: digits.induct)
  case (1 n)
  show ?case
  proof (cases "n < 10")
    case True then show ?thesis by (auto simp: digits_small)
  next
    case False
    with 1 obtain d where "d < 10" "hd (digits (n div 10)) = digit_char d" by auto
    with False show ?thesis using digits_not_Nil[of "n div 10"]
      by (subst digits.simps) auto
  qed
qed

lemma str_inj: "str i = str j \<Longrightarrow> i = j"
proof -
  assume e: "str i = str j"
  have neg: "\<And>a b. a < 0 \<Longrightarrow> \<not> b < 0 \<Longrightarrow> str a \<noteq> str b"
  proof
    fix a b :: int assume a: "a < 0" and b: "\<not> b < 0" and e: "str a = str b"
    obtain d where d: "d < 10" "hd (digits (nat b)) = digit_char d" using hd_digits by blast
    from e a b have "CHR ''-'' # digits (nat (- a)) = digits (nat b)" by (simp add: str_def)
    then have "hd (digits (nat b)) = CHR ''-''" by (metis list.sel(1))
    with d digit_char_not_minus show False by metis
  qed
  show ?thesis
  proof (cases "i < 0"; cases "j < 0")
    assume "i < 0" "j < 0"
    with e have "nat (- i) = nat (- j)" by (simp add: str_def digits_inj)
    with \<open>i < 0\<close> \<open>j < 0\<close> show ?thesis by simp
  next
    assume "i < 0" "\<not> j < 0" with e neg show ?thesis by blast
  next
    assume "\<not> i < 0" "j < 0" with e neg[of j i] show ?thesis by simp
  next
    assume "\<not> i < 0" "\<not> j < 0"
    with e have "nat i = nat j" by (simp add: str_def digits_inj)
    with \<open>\<not> i < 0\<close> \<open>\<not> j < 0\<close> show ?thesis by simp
  qed
qed

lemma str_eq_iff [simp]: "str i = str j \<longleftrightarrow> i = j"
  using str_inj by blast

lemma path_join_rel: "b \<noteq> [] \<Longrightarrow> hd b \<noteq> CHR ''/'' \<Longrightarrow>
   path_join a b = (if a = [] \<or> last a = CHR ''/'' then a else a @ ''/'') @ b"
  by (simp add: path_join_def)

lemma path_join_inj: "hd b \<noteq> CHR ''/'' \<Longrightarrow> hd b' \<noteq> CHR ''/'' \<Longrightarrow> b \<noteq> [] \<Longrightarrow> b' \<noteq> [] \<Longrightarrow>
   path_join a b = path_join a b' \<longleftrightarrow> b = b'"
  by (simp add: path_join_rel)

section \<open>Facts about the library calls\<close>

lemma py_last_Inr: "py_last xs = Inr x \<longleftrightarrow> xs \<noteq> [] \<and> x = last xs"
  by (auto simp: py_last_def)

lemma print_simps [simp]:
  "trace (print msg w) = trace w @ [Print msg]" "fs (print msg w) = fs w"
  by (simp_all add: print_def)

lemma torch_save_simps [simp]:
  "trace (torch_save info p w) = trace w @ [TorchSave info p]"
  "fs (torch_save info p w) = (fs w)(p \<mapsto> CheckpointFile info)"
  by (simp_all add: torch_save_def)

lemma save_model_simps [simp]:
  "trace (save_model m opt stp p w) =
     trace w @ [TorchSave \<lparr>state_dict = params m, optimizer = opt, step = stp\<rparr> p]"
  "fs (save_model m opt stp p w) =
     (fs w)(p \<mapsto> CheckpointFile \<lparr>state_dict = params m, optimizer = opt, step = stp\<rparr>)"
  by (simp_all add: save_model_def)

lemma makedirs_simps [simp]:
  "trace (makedirs p w) = trace w @ [MakeDirs p]" "fs (makedirs p w) = fs w"
  by (simp_all add: makedirs_def)

lemma rmtree_simps [simp]:
  "trace (rmtree p w) = trace w @ [RmTree p]" "fs (rmtree p w) p = None"
  by (simp_all add: rmtree_def)

lemma summary_writer_simps [simp]:
  "trace (summary_writer p w) = trace w @ [SummaryWriter p]"
  "fs (summary_writer p w) = (fs w)(p \<mapsto> EventLog (events_at p w))"
  by (simp_all add: summary_writer_def)

lemma add_scalar_simps [simp]:
  "trace (add_scalar lg tag v s w) = trace w @ [AddScalar tag v s]"
  "fs (add_scalar lg tag v s w) = (fs w)(lg \<mapsto> EventLog (events_at lg w @ [(tag, v, s)]))"
  by (simp_all add: add_scalar_def)

lemma imwrite_simps [simp]:
  "trace (imwrite p img w) = trace w @ [ImWrite p img]"
  "fs (imwrite p img w) = (fs w)(p \<mapsto> ImageFile img)"
  by (simp_all add: imwrite_def)

lemma mimwrite_simps [simp]:
  "trace (mimwrite p frames fps q w) = trace w @ [MimWrite p frames fps q]"
  "fs (mimwrite p frames fps q w) = (fs w)(p \<mapsto> VideoFile frames fps q)"
  by (simp_all add: mimwrite_def)

lemma scalars_of_simps [simp]:
  "scalars_of [] = []"
  "scalars_of (tr @ tr') = scalars_of tr @ scalars_of tr'"
  "scalars_of (ev # tr) = (case ev of AddScalar tag v s \<Rightarrow> [(tag, v, s)] | _ \<Rightarrow> []) @ scalars_of tr"
  by (simp_all add: scalars_of_def)

lemma saved_paths_simps [simp]:
  "saved_paths [] = []"
  "saved_paths (tr @ tr') = saved_paths tr @ saved_paths tr'"
  "saved_paths (ev # tr) = (case ev of TorchSave info p \<Rightarrow> [p] | _ \<Rightarrow> []) @ saved_paths tr"
  by (simp_all add: saved_paths_def)

lemma made_dirs_simps [simp]:
  "made_dirs [] = []"
  "made_dirs (tr @ tr') = made_dirs tr @ made_dirs tr'"
  "made_dirs (ev # tr) = (case ev of MakeDirs p \<Rightarrow> [p] | _ \<Rightarrow> []) @ made_dirs tr"
  by (simp_all add: made_dirs_def)

lemma frames_of_simps [simp]:
  "frames_of [] = []"
  "frames_of (tr @ tr') = frames_of tr @ frames_of tr'"
  "frames_of (ev # tr) =
     (case ev of ImWrite p img \<Rightarrow> [img] | MimWrite p frames fps quality \<Rightarrow> frames | _ \<Rightarrow> [])
     @ frames_of tr"
  by (simp_all add: frames_of_def)

lemma write_images_trace:
  "trace (write_images c stp k frames w) =
     trace w @ map (\<lambda>(i, img). ImWrite (image_path c stp i) img) (zip [k..<k + length frames] frames)"
proof (induction frames arbitrary: k w)
  case Nil
  show ?case by simp
next
  case (Cons img frames)
  have "[k..<k + length (img # frames)] = k # [Suc k..<Suc k + length frames]"
    by (simp add: upt_rec)
  then show ?case by (simp add: Cons.IH)
qed

lemma write_images_proj [simp]:
  "scalars_of (trace (write_images c stp k frames w)) = scalars_of (trace w)"
  "saved_paths (trace (write_images c stp k frames w)) = saved_paths (trace w)"
  "made_dirs (trace (write_images c stp k frames w)) = made_dirs (trace w)"
  "frames_of (trace (write_images c stp k frames w)) = frames_of (trace w) @ frames"
  by (induction frames arbitrary: k w) simp_all

section \<open>Unfolding the driver\<close>

lemmas demo_defs = demo_env_def demo_config_def resume_config_def no_files_def old_files_def
  other_files_def mean_def demo_state_def demo_loader_def mode_env_def

lemmas path_defs = path_join_def str_def digits.simps digit_char_def model_save_path_def
  train_log_dir_def checkpoint_path_def step_dir_def image_path_def video_path_def

lemmas driver_defs = train_model_def startup_def load_checkpoint_def train_iteration_def
  stepping_def saving_def rendering_def loss_and_psnr_def eval_model_def and_then_def
  py_last_def torch_load_def

section \<open>The scalars of one iteration\<close>

text \<open>
  C4. An iteration that completes appends to the logger, keyed by the current step, the five
  scalars \<^verbatim>\<open>train/loss\<close>, \<^verbatim>\<open>train/coarse_psnr\<close>, \<^verbatim>\<open>train/fine_psnr\<close>,
  \<^verbatim>\<open>train/avg_psnr\<close> and \<^verbatim>\<open>train/lr\<close>, in this order. Without evaluation data these
  five are all the scalars of the iteration; with evaluation data the three
  \<^verbatim>\<open>eval/...\<close> scalars follow on the steps that save.
\<close>

theorem five_scalars_per_step:
  "train_iteration env c rd lg stp st = Ok st' \<Longrightarrow>
   scalars_of (trace (world st')) =
     scalars_of (trace (world st)) @
     [(''train/loss'', fst (loss_and_psnr env c st), stp),
      (''train/coarse_psnr'', np_mean env (butlast (snd (loss_and_psnr env c st))), stp),
      (''train/fine_psnr'', last (snd (loss_and_psnr env c st)), stp),
      (''train/avg_psnr'', np_mean env (snd (loss_and_psnr env c st)), stp),
      (''train/lr'', last (get_last_lr env (scheduler st')), stp)] @
     (case eval_data st of
        None \<Rightarrow> []
      | Some k \<Rightarrow>
          if stp mod save_every c = 0 then
            [(''eval/coarse_psnr'',
                np_mean env (butlast (fst (snd (eval_model env c (model st') k)))), stp),
             (''eval/fine_psnr'', last (fst (snd (eval_model env c (model st') k))), stp),
             (''eval/avg_psnr'', np_mean env (fst (snd (eval_model env c (model st') k))), stp)]
          else [])"
  by (auto simp: train_iteration_def and_then_def stepping_def saving_def rendering_def Let_def
        py_last_def eval_model_def
      split: prod.splits sum.splits if_splits outcome.splits option.splits)

theorem five_scalars_per_step_witness:
  "\<exists>st'. train_iteration demo_env demo_config demo_loader ''log/train'' 0 demo_state = Ok st' \<and>
      scalars_of (trace (world st')) =
        [(''train/loss'', 1 / 2, 0), (''train/coarse_psnr'', 3 / 2, 0),
         (''train/fine_psnr'', 6, 0), (''train/avg_psnr'', 3, 0), (''train/lr'', 1 / 2, 0)]"
proof -
  obtain st' where ok:
    "train_iteration demo_env demo_config demo_loader ''log/train'' 0 demo_state = Ok st'"
    by (simp add: driver_defs demo_defs Let_def)
  have sch: "scheduler st' = 1"
    using ok by (auto simp: driver_defs demo_defs Let_def)
  have "scalars_of (trace (world st')) =
        [(''train/loss'', 1 / 2, 0), (''train/coarse_psnr'', 3 / 2, 0),
         (''train/fine_psnr'', 6, 0), (''train/avg_psnr'', 3, 0), (''train/lr'', 1 / 2, 0)]"
    using five_scalars_per_step [OF ok] sch
    by (simp add: loss_and_psnr_def demo_defs Let_def)
  with ok show ?thesis by blast
qed

section \<open>The PSNR aggregation\<close>

text \<open>
  C2. In every iteration that completes, the per-level PSNR array of the step is a list of
  coarse levels followed by the fine level; the logged \<^verbatim>\<open>train/coarse_psnr\<close> is the mean of
  the coarse levels, the logged \<^verbatim>\<open>train/fine_psnr\<close> is the last level, and the logged
  \<^verbatim>\<open>train/avg_psnr\<close> is the mean of the concatenation of the coarse levels with the fine
  level: one mean over the whole array. The witness shows on the array \<open>[1, 2, 6]\<close> that
  this is not the mean of the two logged values.
\<close>

theorem avg_psnr_is_mean_of_all_levels:
  "train_iteration env c rd lg stp st = Ok st' \<Longrightarrow>
   \<exists>coarse_psnrs fine_psnr loss_val lr rest.
     snd (loss_and_psnr env c st) = coarse_psnrs @ [fine_psnr] \<and>
     scalars_of (trace (world st')) =
       scalars_of (trace (world st)) @
       [(''train/loss'', loss_val, stp),
        (''train/coarse_psnr'', np_mean env coarse_psnrs, stp),
        (''train/fine_psnr'', fine_psnr, stp),
        (''train/avg_psnr'', np_mean env (coarse_psnrs @ [fine_psnr]), stp),
        (''train/lr'', lr, stp)] @ rest"
proof -
  assume ok: "train_iteration env c rd lg stp st = Ok st'"
  let ?psnr = "snd (loss_and_psnr env c st)"
  from ok obtain st1 where s1: "stepping env c lg stp st = Ok st1"
    by (auto simp: train_iteration_def and_then_def split: outcome.splits)
  then have ne: "?psnr \<noteq> []"
    by (auto simp: stepping_def Let_def py_last_def split: prod.splits sum.splits if_splits)
  then have split: "?psnr = butlast ?psnr @ [last ?psnr]" by simp
  from s1 obtain lr where tr1:
    "scalars_of (trace (world st1)) =
       scalars_of (trace (world st)) @
       [(''train/loss'', fst (loss_and_psnr env c st), stp),
        (''train/coarse_psnr'', np_mean env (butlast ?psnr), stp),
        (''train/fine_psnr'', last ?psnr, stp),
        (''train/avg_psnr'', np_mean env ?psnr, stp),
        (''train/lr'', lr, stp)]"
    by (auto simp: stepping_def Let_def py_last_def split: prod.splits sum.splits if_splits)
  from ok s1 obtain st2 where s2: "saving env c lg stp st1 = Ok st2"
    and s3: "rendering env c rd stp st2 = Ok st'"
    by (auto simp: train_iteration_def and_then_def split: outcome.splits)
  from s2 obtain r2 where tr2: "scalars_of (trace (world st2)) = scalars_of (trace (world st1)) @ r2"
    by (auto simp: saving_def Let_def py_last_def
        split: prod.splits sum.splits if_splits option.splits)
  from s3 have tr3: "scalars_of (trace (world st')) = scalars_of (trace (world st2))"
    by (auto simp: rendering_def Let_def split: if_splits)
  have "scalars_of (trace (world st')) =
       scalars_of (trace (world st)) @
       [(''train/loss'', fst (loss_and_psnr env c st), stp),
        (''train/coarse_psnr'', np_mean env (butlast ?psnr), stp),
        (''train/fine_psnr'', last ?psnr, stp),
        (''train/avg_psnr'', np_mean env (butlast ?psnr @ [last ?psnr]), stp),
        (''train/lr'', lr, stp)] @ r2"
    using tr1 tr2 tr3 split by simp
  with split show ?thesis by blast
qed

theorem avg_psnr_is_mean_of_all_levels_witness:
  "\<exists>st'. train_iteration demo_env demo_config demo_loader ''log/train'' 0 demo_state = Ok st' \<and>
      (''train/avg_psnr'', mean ([1, 2] @ [6]), 0) \<in> set (scalars_of (trace (world st'))) \<and>
      (''train/coarse_psnr'', mean [1, 2], 0) \<in> set (scalars_of (trace (world st'))) \<and>
      (''train/fine_psnr'', 6, 0) \<in> set (scalars_of (trace (world st'))) \<and>
      mean ([1, 2] @ [6]) \<noteq> mean [mean [1, 2], 6]"
proof -
  obtain st' where ok:
    "train_iteration demo_env demo_config demo_loader ''log/train'' 0 demo_state = Ok st'"
    by (simp add: driver_defs demo_defs Let_def)
  have psnr: "snd (loss_and_psnr demo_env demo_config demo_state) = [1, 2, 6]"
    by (simp add: loss_and_psnr_def demo_defs Let_def)
  from avg_psnr_is_mean_of_all_levels [OF ok] obtain coarse fine loss_val lr rest where
    sp: "snd (loss_and_psnr demo_env demo_config demo_state) = coarse @ [fine]" and
    tr: "scalars_of (trace (world st')) =
       scalars_of (trace (world demo_state)) @
       [(''train/loss'', loss_val, 0),
        (''train/coarse_psnr'', np_mean demo_env coarse, 0),
        (''train/fine_psnr'', fine, 0),
        (''train/avg_psnr'', np_mean demo_env (coarse @ [fine]), 0),
        (''train/lr'', lr, 0)] @ rest"
    by blast
  from sp psnr have e: "coarse @ [fine] = [1, 2] @ [6]" by simp
  then have c: "coarse = [1, 2]" and f: "fine = 6" by simp_all
  have m: "np_mean demo_env = mean" by (simp add: demo_env_def)
  have "mean ([1, 2] @ [6]) \<noteq> mean [mean [1, 2], 6]" by (simp add: mean_def)
  with ok tr c f m show ?thesis by auto
qed

section \<open>Resuming\<close>

text \<open>
  C7. When resuming is requested and there is no file at the latest path, the run ends in
  \<^verbatim>\<open>FileNotFoundError\<close> raised by the load: the world at the raise is the world the run
  started in, no call with an outside effect has been made and no step has run.
\<close>

theorem missing_checkpoint_is_fatal:
  "continue_training c \<Longrightarrow> files (model_save_path c) = None \<Longrightarrow>
   train_model env c files = Raised FileNotFoundError \<lparr>fs = files, trace = []\<rparr>"
  by (simp add: train_model_def startup_def load_checkpoint_def torch_load_def Let_def)

theorem missing_checkpoint_is_fatal_witness:
  "continue_training resume_config \<and> no_files (model_save_path resume_config) = None \<and>
   train_model demo_env resume_config no_files =
     Raised FileNotFoundError \<lparr>fs = no_files, trace = []\<rparr>"
proof -
  have a: "continue_training resume_config" by (simp add: resume_config_def)
  have b: "no_files (model_save_path resume_config) = None" by (simp add: no_files_def)
  from a b missing_checkpoint_is_fatal [of resume_config no_files demo_env] show ?thesis by simp
qed

text \<open>
  C3. After \<^verbatim>\<open>save_model(model, optimizer, S, path)\<close> on the latest path, the file loads as
  the dictionary that was saved; the resume of lines 47 to 53 puts the saved parameters into
  the model, the saved state into the optimizer and sets the start step to \<open>S\<close>; and the
  startup of a resumed run on that file system enters the loop at step \<open>S\<close> with the saved
  parameters (the optimizer is then handed to the constructor of the schedule).
\<close>

theorem checkpoint_round_trip:
  "continue_training c \<Longrightarrow> w' = save_model m opt S (model_save_path c) w \<Longrightarrow>
   torch_load (model_save_path c) w' = Inr \<lparr>state_dict = params m, optimizer = opt, step = S\<rparr> \<and>
   load_checkpoint c m0 opt0 w' =
     Inr (m0\<lparr>params := params m\<rparr>, opt, S, print ''Loaded model and optimizer from disk.'' w') \<and>
   (\<exists>st. startup env c \<lparr>fs = fs w', trace = []\<rparr> = Inr (st, S) \<and>
         params (model st) = params m \<and> optim st = snd (MipLRDecay env c opt))"
  by (simp add: startup_def load_checkpoint_def torch_load_def Let_def split: prod.splits)

theorem checkpoint_round_trip_witness:
  "continue_training resume_config \<and>
   load_checkpoint resume_config \<lparr>params = 0, training = True\<rparr> 0
       (save_model \<lparr>params = 40, training = False\<rparr> 3 3 (model_save_path resume_config)
          \<lparr>fs = no_files, trace = []\<rparr>) =
     Inr (\<lparr>params = 40, training = True\<rparr>, 3, 3,
          print ''Loaded model and optimizer from disk.''
            (save_model \<lparr>params = 40, training = False\<rparr> 3 3 (model_save_path resume_config)
               \<lparr>fs = no_files, trace = []\<rparr>))"
proof -
  have a: "continue_training resume_config" by (simp add: resume_config_def)
  from a checkpoint_round_trip [OF a refl, of "\<lparr>params = 40, training = False\<rparr>" 3 3
      "\<lparr>fs = no_files, trace = []\<rparr>" "\<lparr>params = 0, training = True\<rparr>" 0 demo_env]
  show ?thesis by simp
qed

section \<open>Facts about the paths of the run\<close>

lemma path_join_longer: "b \<noteq> [] \<Longrightarrow> hd b \<noteq> CHR ''/'' \<Longrightarrow> path_join a b \<noteq> a"
  by (simp add: path_join_rel)

lemma paths_distinct [simp]:
  "model_save_path c \<noteq> checkpoint_path c s"
  "model_save_path c \<noteq> train_log_dir c"
  "checkpoint_path c s \<noteq> train_log_dir c"
  "image_path c s i \<noteq> train_log_dir c"
  "video_path c s \<noteq> train_log_dir c"
  "image_path c s i \<noteq> model_save_path c"
  "video_path c s \<noteq> model_save_path c"
  "image_path c s i \<noteq> checkpoint_path c s'"
  "video_path c s \<noteq> checkpoint_path c s'"
  "step_dir c s \<noteq> log_dir c"
  by (simp_all add: model_save_path_def checkpoint_path_def train_log_dir_def image_path_def
      video_path_def step_dir_def path_join_inj path_join_longer)

lemma paths_distinct' [simp]:
  "checkpoint_path c s \<noteq> model_save_path c"
  "train_log_dir c \<noteq> model_save_path c"
  "train_log_dir c \<noteq> checkpoint_path c s"
  "train_log_dir c \<noteq> image_path c s i"
  "train_log_dir c \<noteq> video_path c s"
  "model_save_path c \<noteq> image_path c s i"
  "model_save_path c \<noteq> video_path c s"
  "checkpoint_path c s' \<noteq> image_path c s i"
  "checkpoint_path c s' \<noteq> video_path c s"
  using paths_distinct [of c] by (metis+)

lemma checkpoint_path_inj [simp]: "checkpoint_path c s = checkpoint_path c s' \<longleftrightarrow> s = s'"
  by (simp add: checkpoint_path_def path_join_inj)

lemma step_dir_inj [simp]: "step_dir c s = step_dir c s' \<longleftrightarrow> s = s'"
  by (simp add: step_dir_def path_join_inj)

lemma write_images_fs:
  "(\<And>i. p \<noteq> image_path c stp i) \<Longrightarrow> fs (write_images c stp k frames w) p = fs w p"
  by (induction frames arbitrary: k w) simp_all

lemma write_images_fs_simps [simp]:
  "fs (write_images c stp k frames w) (model_save_path c) = fs w (model_save_path c)"
  "fs (write_images c stp k frames w) (checkpoint_path c s) = fs w (checkpoint_path c s)"
  "fs (write_images c stp k frames w) (train_log_dir c) = fs w (train_log_dir c)"
  by (simp_all add: write_images_fs)

section \<open>The mode of the model around rendering\<close>

text \<open>
  C5, as stated, fails: the rendering branch calls \<^verbatim>\<open>model.eval()\<close> (line 97) and never
  calls \<^verbatim>\<open>model.train()\<close>. The fresh one-step run renders at step 0, its last
  iteration, and returns with the model in inference mode.
\<close>

theorem exit_mode_counterexample:
  "mode_at_exit (train_model demo_env demo_config no_files) = Some False"
  by (simp add: mode_at_exit_def driver_defs demo_defs path_defs upto.simps Let_def)

lemma iteration_mode:
  "train_iteration env c rd lg stp st = Ok st' \<Longrightarrow>
   (\<exists>rest. scalars_of (trace (world st')) =
      scalars_of (trace (world st)) @
      (''train/loss'',
       fst (NeRFLoss env c
              (forward env ((model st)\<lparr>training := True\<rparr>)
                 (fst (get_dataloader env c ''train'' (data st))))
              (snd (get_dataloader env c ''train'' (data st)))
              (lossmult env (fst (get_dataloader env c ''train'' (data st))))), stp) # rest) \<and>
   params (model st') =
     snd (optimizer_step env (optim st) (params (model st))
            (backward env ((model st)\<lparr>training := True\<rparr>)
               (fst (get_dataloader env c ''train'' (data st)))
               (snd (get_dataloader env c ''train'' (data st))))) \<and>
   (stp mod render_every c = 0 \<longrightarrow>
      \<not> training (model st') \<and>
      frames_of (trace (world st')) =
        frames_of (trace (world st)) @
        map (\<lambda>rays. render_image env (model st') rays (loader_h rd) (loader_w rd) (chunks c))
          (loader_rays rd) @
        map (\<lambda>rays. render_image env (model st') rays (loader_h rd) (loader_w rd) (chunks c))
          (loader_rays rd)) \<and>
   (stp mod render_every c \<noteq> 0 \<longrightarrow> training (model st')) \<and>
   train_iteration env c rd lg stp (st\<lparr>model := (model st)\<lparr>training := b\<rparr>\<rparr>) = Ok st'"
  by (auto simp: train_iteration_def and_then_def stepping_def saving_def rendering_def Let_def
        py_last_def eval_model_def loss_and_psnr_def
      split: prod.splits sum.splits if_splits outcome.splits option.splits)

lemma loop_mode:
  "train_loop env c rd lg steps st = Ok st' \<Longrightarrow> steps \<noteq> [] \<Longrightarrow>
   training (model st') \<longleftrightarrow> last steps mod render_every c \<noteq> 0"
proof (induction steps arbitrary: st)
  case Nil
  then show ?case by simp
next
  case (Cons stp steps)
  from Cons.prems(1) obtain st1 where it: "train_iteration env c rd lg stp st = Ok st1"
    and lp: "train_loop env c rd lg steps st1 = Ok st'"
    by (auto simp: and_then_def split: outcome.splits)
  show ?case
  proof (cases "steps = []")
    case True
    with lp have "st' = st1" by simp
    with iteration_mode [OF it] True show ?thesis by auto
  next
    case False
    with Cons.IH [OF lp] show ?thesis by simp
  qed
qed

lemma startup_mode: "startup env c w0 = Inr (st0, start_step) \<Longrightarrow> training (model st0)"
  by (auto simp: startup_def load_checkpoint_def Let_def split: prod.splits sum.splits if_splits)

lemma run_mode:
  assumes ok: "train_model env c files = Ok stf"
    and su: "startup env c \<lparr>fs = files, trace = []\<rparr> = Inr (st0, start_step)"
  shows "training (model stf) \<longleftrightarrow>
           max_steps c \<le> start_step \<or> (max_steps c - 1) mod render_every c \<noteq> 0"
proof -
  let ?steps = "[start_step..max_steps c - 1]"
  from ok su have lp:
    "train_loop env c (get_render_dataloader env c 200 200) (train_log_dir c) ?steps st0 = Ok stf"
    by (simp add: train_model_def)
  show ?thesis
  proof (cases "max_steps c \<le> start_step")
    case True
    then have "?steps = []" by simp
    with lp have "stf = st0" by simp
    with startup_mode [OF su] True show ?thesis by simp
  next
    case False
    then have le: "start_step \<le> max_steps c - 1" by simp
    then have ne: "?steps \<noteq> []" by simp
    from le have "last ?steps = max_steps c - 1" by (simp add: upto_rec2)
    with loop_mode [OF lp ne] False show ?thesis by simp
  qed
qed

text \<open>
  C5, amended. Line 64 sets training mode at the head of every iteration: the forward pass
  whose loss is logged and the backward pass whose gradient updates the parameters run on
  the model in training mode, and the iteration does the same whatever mode the model is
  in when it starts. An iteration that renders switches the model to inference mode
  before rendering, renders its frames (each written once as an image file and once in the
  video) in that mode, and does not switch back: it ends in inference mode, and an
  iteration that does not render ends in training mode. So a run that completes returns
  with the model in training mode exactly when it ran no step or its last step,
  \<open>max_steps - 1\<close>, did not render.
\<close>

theorem training_mode_restored_at_loop_head:
  "(train_iteration env c rd lg stp st = Ok st' \<longrightarrow>
     (\<exists>rest. scalars_of (trace (world st')) =
        scalars_of (trace (world st)) @
        (''train/loss'',
         fst (NeRFLoss env c
                (forward env ((model st)\<lparr>training := True\<rparr>)
                   (fst (get_dataloader env c ''train'' (data st))))
                (snd (get_dataloader env c ''train'' (data st)))
                (lossmult env (fst (get_dataloader env c ''train'' (data st))))), stp) # rest) \<and>
     params (model st') =
       snd (optimizer_step env (optim st) (params (model st))
              (backward env ((model st)\<lparr>training := True\<rparr>)
                 (fst (get_dataloader env c ''train'' (data st)))
                 (snd (get_dataloader env c ''train'' (data st))))) \<and>
     (stp mod render_every c = 0 \<longrightarrow>
        \<not> training (model st') \<and>
        frames_of (trace (world st')) =
          frames_of (trace (world st)) @
          map (\<lambda>rays. render_image env (model st') rays (loader_h rd) (loader_w rd) (chunks c))
            (loader_rays rd) @
          map (\<lambda>rays. render_image env (model st') rays (loader_h rd) (loader_w rd) (chunks c))
            (loader_rays rd)) \<and>
     (stp mod render_every c \<noteq> 0 \<longrightarrow> training (model st')) \<and>
     train_iteration env c rd lg stp (st\<lparr>model := (model st)\<lparr>training := b\<rparr>\<rparr>) = Ok st') \<and>
   (train_model env c files = Ok stf \<and>
    startup env c \<lparr>fs = files, trace = []\<rparr> = Inr (st0, start_step) \<longrightarrow>
     (training (model stf) \<longleftrightarrow>
        max_steps c \<le> start_step \<or> (max_steps c - 1) mod render_every c \<noteq> 0))"
  apply (rule conjI)
   apply (rule impI)
   apply (erule iteration_mode)
  apply (rule impI)
  apply (erule conjE)
  apply (erule (1) run_mode)
  done

theorem training_mode_restored_at_loop_head_witness:
  "\<exists>st' st'' stf stf' st0 st0'.
     train_iteration mode_env demo_config demo_loader ''log/train'' 0
       (demo_state\<lparr>model := (model demo_state)\<lparr>training := False\<rparr>\<rparr>) = Ok st' \<and>
     0 mod render_every demo_config = 0 \<and> \<not> training (model st') \<and>
     hd (scalars_of (trace (world st'))) = (''train/loss'', 3, 0) \<and>
     params (model st') = 1 \<and>
     train_iteration mode_env demo_config demo_loader ''log/train'' 0 demo_state = Ok st' \<and>
     train_iteration mode_env resume_config demo_loader ''log/train'' 1 demo_state = Ok st'' \<and>
     1 mod render_every resume_config \<noteq> 0 \<and> training (model st'') \<and>
     train_model mode_env demo_config no_files = Ok stf \<and>
     startup mode_env demo_config \<lparr>fs = no_files, trace = []\<rparr> = Inr (st0, 0) \<and>
     \<not> training (model stf) \<and>
     train_model mode_env resume_config old_files = Ok stf' \<and>
     startup mode_env resume_config \<lparr>fs = old_files, trace = []\<rparr> = Inr (st0', 3) \<and>
     training (model stf')"
proof -
  let ?st = "demo_state\<lparr>model := (model demo_state)\<lparr>training := False\<rparr>\<rparr>"
  obtain st' where ok:
    "train_iteration mode_env demo_config demo_loader ''log/train'' 0 ?st = Ok st'"
    by (simp add: driver_defs demo_defs Let_def)
  obtain st'' where ok2:
    "train_iteration mode_env resume_config demo_loader ''log/train'' 1 demo_state = Ok st''"
    by (simp add: driver_defs demo_defs Let_def)
  obtain st0 where su:
    "startup mode_env demo_config \<lparr>fs = no_files, trace = []\<rparr> = Inr (st0, 0)"
    by (simp add: driver_defs demo_defs path_defs Let_def)
  obtain stf where run: "train_model mode_env demo_config no_files = Ok stf"
    by (simp add: driver_defs demo_defs path_defs upto.simps Let_def)
  obtain st0' where su':
    "startup mode_env resume_config \<lparr>fs = old_files, trace = []\<rparr> = Inr (st0', 3)"
    by (simp add: driver_defs demo_defs path_defs Let_def)
  obtain stf' where run': "train_model mode_env resume_config old_files = Ok stf'"
    by (simp add: driver_defs demo_defs path_defs upto.simps Let_def)
  have r: "0 mod render_every demo_config = 0" "1 mod render_every resume_config \<noteq> 0"
    "max_steps demo_config = 1" "render_every demo_config = 1"
    "max_steps resume_config = 5" "render_every resume_config = 3"
    by (simp_all add: demo_defs)
  have e: "scalars_of (trace (world ?st)) = []" "params (model ?st) = 0" "optim ?st = 0"
    "data ?st = 0" "model ?st\<lparr>training := True\<rparr> = \<lparr>params = 0, training = True\<rparr>"
    "model ?st\<lparr>training := True\<rparr> = model demo_state"
    by (simp_all add: demo_defs)
  note t1 = training_mode_restored_at_loop_head
      [of mode_env demo_config demo_loader "''log/train''" 0 ?st st' True
          no_files stf st0 0]
  from t1 ok r e have a: "\<not> training (model st')"
    "hd (scalars_of (trace (world st'))) = (''train/loss'', 3, 0)"
    "params (model st') = 1"
    "train_iteration mode_env demo_config demo_loader ''log/train'' 0 demo_state = Ok st'"
    by (auto simp: mode_env_def demo_env_def)
  from t1 run su r have b: "\<not> training (model stf)" by simp
  note t2 = training_mode_restored_at_loop_head
      [of mode_env resume_config demo_loader "''log/train''" 1 demo_state st'' True
          old_files stf' st0' 3]
  from t2 ok2 r have c: "training (model st'')" by simp
  from t2 run' su' r have d: "training (model stf')" by simp
  show ?thesis
    by (rule exI [of _ st'], rule exI [of _ st''], rule exI [of _ stf], rule exI [of _ stf'],
        rule exI [of _ st0], rule exI [of _ st0'])
       (use ok ok2 run run' su su' r a b c d in simp)
qed

section \<open>The checkpoint pair\<close>

text \<open>
  C6. An iteration that completes on a step where saving triggers has made exactly two
  checkpoint writes, first to the step-stamped path and then to the latest path, with the
  same dictionary: the parameters and the optimizer state after the step's update, and the
  step. Both files hold it when the iteration ends. An iteration on a step where saving
  does not trigger writes no checkpoint and leaves the latest file as it was, so the
  latest file is that of the last step that saved.
\<close>

theorem checkpoint_pair_on_save:
  "train_iteration env c rd (train_log_dir c) stp st = Ok st' \<Longrightarrow>
   (stp mod save_every c = 0 \<longrightarrow>
      fs (world st') (checkpoint_path c stp) =
        Some (CheckpointFile \<lparr>state_dict = params (model st'), optimizer = optim st', step = stp\<rparr>) \<and>
      fs (world st') (model_save_path c) =
        Some (CheckpointFile \<lparr>state_dict = params (model st'), optimizer = optim st', step = stp\<rparr>) \<and>
      filter (\<lambda>ev. case ev of TorchSave info p \<Rightarrow> True | _ \<Rightarrow> False) (trace (world st')) =
        filter (\<lambda>ev. case ev of TorchSave info p \<Rightarrow> True | _ \<Rightarrow> False) (trace (world st)) @
        [TorchSave \<lparr>state_dict = params (model st'), optimizer = optim st', step = stp\<rparr>
           (checkpoint_path c stp),
         TorchSave \<lparr>state_dict = params (model st'), optimizer = optim st', step = stp\<rparr>
           (model_save_path c)]) \<and>
   (stp mod save_every c \<noteq> 0 \<longrightarrow>
      fs (world st') (model_save_path c) = fs (world st) (model_save_path c) \<and>
      saved_paths (trace (world st')) = saved_paths (trace (world st)))"
proof -
  assume ok: "train_iteration env c rd (train_log_dir c) stp st = Ok st'"
  from ok obtain st1 st2 where s1: "stepping env c (train_log_dir c) stp st = Ok st1"
    and s2: "saving env c (train_log_dir c) stp st1 = Ok st2"
    and s3: "rendering env c rd stp st2 = Ok st'"
    by (auto simp: train_iteration_def and_then_def split: outcome.splits)
  let ?sv = "\<lambda>tr. filter (\<lambda>ev. case ev of TorchSave info p \<Rightarrow> True | _ \<Rightarrow> False) tr"
  have wi: "\<And>k frames w. ?sv (trace (write_images c stp k frames w)) = ?sv (trace w)"
    by (simp add: write_images_trace split_def)
  from s1 have a1: "fs (world st1) (model_save_path c) = fs (world st) (model_save_path c)"
    "saved_paths (trace (world st1)) = saved_paths (trace (world st))"
    "?sv (trace (world st1)) = ?sv (trace (world st))"
    by (auto simp: stepping_def Let_def py_last_def split: prod.splits sum.splits if_splits)
  from s3 have a3: "params (model st') = params (model st2)" "optim st' = optim st2"
    "fs (world st') (model_save_path c) = fs (world st2) (model_save_path c)"
    "fs (world st') (checkpoint_path c stp) = fs (world st2) (checkpoint_path c stp)"
    "saved_paths (trace (world st')) = saved_paths (trace (world st2))"
    "?sv (trace (world st')) = ?sv (trace (world st2))"
    by (auto simp: rendering_def Let_def wi split: if_splits)
  from s2 have a2:
    "stp mod save_every c \<noteq> 0 \<Longrightarrow> st2 = st1"
    "stp mod save_every c = 0 \<Longrightarrow>
       fs (world st2) (checkpoint_path c stp) =
         Some (CheckpointFile \<lparr>state_dict = params (model st2), optimizer = optim st2, step = stp\<rparr>) \<and>
       fs (world st2) (model_save_path c) =
         Some (CheckpointFile \<lparr>state_dict = params (model st2), optimizer = optim st2, step = stp\<rparr>) \<and>
       ?sv (trace (world st2)) = ?sv (trace (world st1)) @
        [TorchSave \<lparr>state_dict = params (model st2), optimizer = optim st2, step = stp\<rparr>
           (checkpoint_path c stp),
         TorchSave \<lparr>state_dict = params (model st2), optimizer = optim st2, step = stp\<rparr>
           (model_save_path c)]"
    by (auto simp: saving_def Let_def py_last_def eval_model_def
        split: prod.splits sum.splits if_splits option.splits)
  show ?thesis using a1 a2 a3 by auto
qed

theorem checkpoint_pair_on_save_witness:
  "\<exists>st' st''.
     train_iteration demo_env demo_config demo_loader (train_log_dir demo_config) 0 demo_state
       = Ok st' \<and>
     0 mod save_every demo_config = 0 \<and>
     fs (world st') ''log/model_0.pt'' =
       Some (CheckpointFile \<lparr>state_dict = 1, optimizer = 1, step = 0\<rparr>) \<and>
     fs (world st') ''log/model.pt'' =
       Some (CheckpointFile \<lparr>state_dict = 1, optimizer = 1, step = 0\<rparr>) \<and>
     train_iteration demo_env resume_config demo_loader (train_log_dir resume_config) 1 demo_state
       = Ok st'' \<and>
     1 mod save_every resume_config \<noteq> 0 \<and>
     fs (world st'') ''log/model.pt'' = None"
proof -
  obtain st' where ok:
    "train_iteration demo_env demo_config demo_loader (train_log_dir demo_config) 0 demo_state
       = Ok st'"
    by (simp add: driver_defs demo_defs Let_def)
  obtain st'' where ok2:
    "train_iteration demo_env resume_config demo_loader (train_log_dir resume_config) 1
       demo_state = Ok st''"
    by (simp add: driver_defs demo_defs Let_def)
  have v: "params (model st') = 1" "optim st' = 1"
    using ok by (auto simp: driver_defs demo_defs Let_def)
  have r: "0 mod save_every demo_config = 0" "1 mod save_every resume_config \<noteq> 0"
    by (simp_all add: demo_defs)
  have p: "checkpoint_path demo_config 0 = ''log/model_0.pt''"
    "model_save_path demo_config = ''log/model.pt''"
    "model_save_path resume_config = ''log/model.pt''"
    by (simp_all add: path_defs demo_defs)
  have f0: "fs (world demo_state) ''log/model.pt'' = None" by (simp add: demo_defs)
  from checkpoint_pair_on_save [OF ok] r v p
  have a: "fs (world st') ''log/model_0.pt'' =
       Some (CheckpointFile \<lparr>state_dict = 1, optimizer = 1, step = 0\<rparr>)"
    "fs (world st') ''log/model.pt'' =
       Some (CheckpointFile \<lparr>state_dict = 1, optimizer = 1, step = 0\<rparr>)"
    by simp_all
  from checkpoint_pair_on_save [OF ok2] r p f0
  have b: "fs (world st'') ''log/model.pt'' = None" by simp
  show ?thesis
    by (rule exI [of _ st'], rule exI [of _ st'']) (use ok ok2 r a b in simp)
qed

section \<open>Facts about the startup\<close>

lemma startup_trace:
  "startup env c w0 = Inr (st0, start_step) \<Longrightarrow>
   trace (world st0) =
     trace w0 @ (if continue_training c then [Print ''Loaded model and optimizer from disk.''] else []) @
     [MakeDirs (log_dir c), RmTree (train_log_dir c), SummaryWriter (train_log_dir c)]"
  by (auto simp: startup_def load_checkpoint_def Let_def split: prod.splits sum.splits if_splits)

lemma startup_Inl: "startup env c w0 = Inl (e, w) \<Longrightarrow> w = w0"
  by (auto simp: startup_def Let_def split: prod.splits sum.splits)

section \<open>The scalar log across runs\<close>

lemma iteration_log:
  "fs (world st) (train_log_dir c) = Some (EventLog (scalars_of (trace (world st)))) \<Longrightarrow>
   fs (final_world (train_iteration env c rd (train_log_dir c) stp st)) (train_log_dir c) =
     Some (EventLog (scalars_of
       (trace (final_world (train_iteration env c rd (train_log_dir c) stp st)))))"
  by (auto simp: train_iteration_def and_then_def stepping_def saving_def rendering_def Let_def
        py_last_def eval_model_def final_world_def events_at_def
      split: prod.splits sum.splits if_splits outcome.splits option.splits)

lemma loop_log:
  "fs (world st) (train_log_dir c) = Some (EventLog (scalars_of (trace (world st)))) \<Longrightarrow>
   fs (final_world (train_loop env c rd (train_log_dir c) steps st)) (train_log_dir c) =
     Some (EventLog (scalars_of
       (trace (final_world (train_loop env c rd (train_log_dir c) steps st)))))"
proof (induction steps arbitrary: st)
  case Nil
  then show ?case by (simp add: final_world_def)
next
  case (Cons stp steps)
  show ?case
  proof (cases "train_iteration env c rd (train_log_dir c) stp st")
    case (Ok st1)
    with iteration_log [OF Cons.prems, of env rd stp]
    have "fs (world st1) (train_log_dir c) = Some (EventLog (scalars_of (trace (world st1))))"
      by (simp add: final_world_def)
    from Cons.IH [OF this] Ok show ?thesis by (simp add: and_then_def)
  next
    case (Raised e w)
    with iteration_log [OF Cons.prems, of env rd stp] show ?thesis
      by (simp add: and_then_def final_world_def)
  qed
qed

lemma startup_log:
  "startup env c w0 = Inr (st0, start_step) \<Longrightarrow>
   fs (world st0) (train_log_dir c) = Some (EventLog [])"
  by (auto simp: startup_def load_checkpoint_def Let_def events_at_def
      split: prod.splits sum.splits if_splits)

text \<open>
  C9. Whenever the startup reaches the loop, resuming or not, its calls after the optional
  load are \<^verbatim>\<open>os.makedirs(log_dir)\<close>, \<^verbatim>\<open>shutil.rmtree(<log_dir>/train)\<close> and then
  \<^verbatim>\<open>tb.SummaryWriter(<log_dir>/train)\<close>, and the log directory is empty when the loop
  starts, whatever it held before. When the run ends, completed or not, the directory
  holds exactly the scalars this run logged: nothing of an earlier run's history is kept.
\<close>

theorem train_log_is_reset_on_startup:
  "startup env c \<lparr>fs = files, trace = []\<rparr> = Inr (st0, start_step) \<Longrightarrow>
   trace (world st0) =
     (if continue_training c then [Print ''Loaded model and optimizer from disk.''] else []) @
     [MakeDirs (log_dir c), RmTree (train_log_dir c), SummaryWriter (train_log_dir c)] \<and>
   fs (world st0) (train_log_dir c) = Some (EventLog []) \<and>
   fs (final_world (train_model env c files)) (train_log_dir c) =
     Some (EventLog (scalars_of (trace (final_world (train_model env c files)))))"
proof -
  assume su: "startup env c \<lparr>fs = files, trace = []\<rparr> = Inr (st0, start_step)"
  from startup_trace [OF su] have tr: "trace (world st0) =
     (if continue_training c then [Print ''Loaded model and optimizer from disk.''] else []) @
     [MakeDirs (log_dir c), RmTree (train_log_dir c), SummaryWriter (train_log_dir c)]"
    by simp
  from startup_log [OF su] have lg: "fs (world st0) (train_log_dir c) = Some (EventLog [])" .
  from tr lg have "fs (world st0) (train_log_dir c) =
      Some (EventLog (scalars_of (trace (world st0))))" by simp
  from loop_log [OF this] su
  have "fs (final_world (train_model env c files)) (train_log_dir c) =
     Some (EventLog (scalars_of (trace (final_world (train_model env c files)))))"
    by (simp add: train_model_def)
  with tr lg show ?thesis by simp
qed

theorem train_log_is_reset_on_startup_witness:
  "\<exists>st0. startup demo_env resume_config \<lparr>fs = old_files, trace = []\<rparr> = Inr (st0, 3) \<and>
      continue_training resume_config \<and>
      old_files (train_log_dir resume_config) =
        Some (EventLog [(''train/loss'', 9, 0), (''train/loss'', 8, 1)]) \<and>
      fs (world st0) (train_log_dir resume_config) = Some (EventLog []) \<and>
      length (scalars_of (trace (final_world (train_model demo_env resume_config old_files)))) = 10 \<and>
      fs (final_world (train_model demo_env resume_config old_files)) (train_log_dir resume_config) =
        Some (EventLog (scalars_of
          (trace (final_world (train_model demo_env resume_config old_files)))))"
proof -
  obtain st0 where su:
    "startup demo_env resume_config \<lparr>fs = old_files, trace = []\<rparr> = Inr (st0, 3)"
    by (simp add: driver_defs demo_defs path_defs Let_def)
  have a: "continue_training resume_config" by (simp add: demo_defs)
  have b: "old_files (train_log_dir resume_config) =
        Some (EventLog [(''train/loss'', 9, 0), (''train/loss'', 8, 1)])"
    by (simp add: demo_defs path_defs)
  have n: "length (scalars_of
      (trace (final_world (train_model demo_env resume_config old_files)))) = 10"
    by (simp add: final_world_def driver_defs demo_defs path_defs upto.simps Let_def)
  show ?thesis
    by (rule exI [of _ st0]) (use su a b n train_log_is_reset_on_startup [OF su] in simp)
qed

section \<open>The cadence of saving and rendering\<close>

lemma iteration_cadence:
  "train_iteration env c rd lg stp st = Ok st' \<Longrightarrow>
   save_every c \<noteq> 0 \<and> render_every c \<noteq> 0 \<and>
   saved_paths (trace (world st')) =
     saved_paths (trace (world st)) @
     (if stp mod save_every c = 0 then [checkpoint_path c stp, model_save_path c] else []) \<and>
   made_dirs (trace (world st')) =
     made_dirs (trace (world st)) @ (if stp mod render_every c = 0 then [step_dir c stp] else [])"
  by (auto simp: train_iteration_def and_then_def stepping_def saving_def rendering_def Let_def
        py_last_def eval_model_def
      split: prod.splits sum.splits if_splits outcome.splits option.splits)

lemma loop_cadence:
  "train_loop env c rd lg steps st = Ok st' \<Longrightarrow>
   (steps \<noteq> [] \<longrightarrow> save_every c \<noteq> 0 \<and> render_every c \<noteq> 0) \<and>
   saved_paths (trace (world st')) =
     saved_paths (trace (world st)) @
     concat (map (\<lambda>s. if s mod save_every c = 0 then [checkpoint_path c s, model_save_path c]
                        else []) steps) \<and>
   made_dirs (trace (world st')) =
     made_dirs (trace (world st)) @
     concat (map (\<lambda>s. if s mod render_every c = 0 then [step_dir c s] else []) steps)"
proof (induction steps arbitrary: st)
  case Nil
  then show ?case by simp
next
  case (Cons stp steps)
  from Cons.prems obtain st1 where it: "train_iteration env c rd lg stp st = Ok st1"
    and lp: "train_loop env c rd lg steps st1 = Ok st'"
    by (auto simp: and_then_def split: outcome.splits)
  from iteration_cadence [OF it] Cons.IH [OF lp] show ?case by simp
qed

text \<open>
  C1. In a run that completes, for every step \<open>s\<close> of the loop's range, from the start
  step up to but not including \<open>max_steps\<close>: a checkpoint was written to the step-stamped
  path of \<open>s\<close> exactly when \<open>s mod save_every = 0\<close>, and the step directory of \<open>s\<close> was
  made exactly when \<open>s mod render_every = 0\<close>. The two tests are independent; neither
  modulus is zero in such a run, so \<open>mod\<close> is Python's \<^verbatim>\<open>%\<close>. The witness is a resumed run
  of steps 3 and 4 in which step 3 renders without saving and step 4 saves without
  rendering; in the fresh one-step run both branches run at step 0.
\<close>

theorem save_and_render_cadence:
  "train_model env c files = Ok st \<Longrightarrow>
   startup env c \<lparr>fs = files, trace = []\<rparr> = Inr (st0, start_step) \<Longrightarrow>
   start_step \<le> s \<Longrightarrow> s < max_steps c \<Longrightarrow>
   save_every c \<noteq> 0 \<and> render_every c \<noteq> 0 \<and>
   (checkpoint_path c s \<in> set (saved_paths (trace (world st))) \<longleftrightarrow> s mod save_every c = 0) \<and>
   (step_dir c s \<in> set (made_dirs (trace (world st))) \<longleftrightarrow> s mod render_every c = 0)"
proof -
  assume ok: "train_model env c files = Ok st"
    and su: "startup env c \<lparr>fs = files, trace = []\<rparr> = Inr (st0, start_step)"
    and lo: "start_step \<le> s" and hi: "s < max_steps c"
  let ?steps = "[start_step..max_steps c - 1]"
  from ok su have lp:
    "train_loop env c (get_render_dataloader env c 200 200) (train_log_dir c) ?steps st0 = Ok st"
    by (simp add: train_model_def)
  from lo hi have mem: "s \<in> set ?steps" by simp
  then have ne: "?steps \<noteq> []" by auto
  from startup_trace [OF su] have t0:
    "saved_paths (trace (world st0)) = []" "made_dirs (trace (world st0)) = [log_dir c]"
    by simp_all
  note lc = loop_cadence [OF lp]
  from lc ne have nz: "save_every c \<noteq> 0" "render_every c \<noteq> 0" by blast+
  from lc t0 have sp: "saved_paths (trace (world st)) =
     concat (map (\<lambda>s. if s mod save_every c = 0 then [checkpoint_path c s, model_save_path c]
                        else []) ?steps)" by simp
  from lc t0 have md: "made_dirs (trace (world st)) =
     log_dir c # concat (map (\<lambda>s. if s mod render_every c = 0 then [step_dir c s] else []) ?steps)"
    by simp
  have a: "checkpoint_path c s \<in> set (saved_paths (trace (world st))) \<longleftrightarrow> s mod save_every c = 0"
    unfolding sp using mem by (auto split: if_splits)
  have b: "step_dir c s \<in> set (made_dirs (trace (world st))) \<longleftrightarrow> s mod render_every c = 0"
    unfolding md using mem by (auto split: if_splits)
  from nz a b show ?thesis by simp
qed

theorem save_and_render_cadence_witness:
  "\<exists>st st0.
     train_model demo_env resume_config old_files = Ok st \<and>
     startup demo_env resume_config \<lparr>fs = old_files, trace = []\<rparr> = Inr (st0, 3) \<and>
     max_steps resume_config = 5 \<and> save_every resume_config = 2 \<and> render_every resume_config = 3 \<and>
     checkpoint_path resume_config 3 \<notin> set (saved_paths (trace (world st))) \<and>
     step_dir resume_config 3 \<in> set (made_dirs (trace (world st))) \<and>
     checkpoint_path resume_config 4 \<in> set (saved_paths (trace (world st))) \<and>
     step_dir resume_config 4 \<notin> set (made_dirs (trace (world st))) \<and>
     (\<exists>st' st0'.
        train_model demo_env demo_config no_files = Ok st' \<and>
        startup demo_env demo_config \<lparr>fs = no_files, trace = []\<rparr> = Inr (st0', 0) \<and>
        checkpoint_path demo_config 0 \<in> set (saved_paths (trace (world st'))) \<and>
        step_dir demo_config 0 \<in> set (made_dirs (trace (world st'))))"
proof -
  obtain st0 where su:
    "startup demo_env resume_config \<lparr>fs = old_files, trace = []\<rparr> = Inr (st0, 3)"
    by (simp add: driver_defs demo_defs path_defs Let_def)
  obtain st where ok: "train_model demo_env resume_config old_files = Ok st"
    by (simp add: driver_defs demo_defs path_defs upto.simps Let_def)
  have c: "max_steps resume_config = 5" "save_every resume_config = 2"
    "render_every resume_config = 3"
    by (simp_all add: demo_defs)
  from save_and_render_cadence [OF ok su, of 3] c
  have a: "checkpoint_path resume_config 3 \<notin> set (saved_paths (trace (world st)))"
    "step_dir resume_config 3 \<in> set (made_dirs (trace (world st)))" by simp_all
  from save_and_render_cadence [OF ok su, of 4] c
  have b: "checkpoint_path resume_config 4 \<in> set (saved_paths (trace (world st)))"
    "step_dir resume_config 4 \<notin> set (made_dirs (trace (world st)))" by simp_all
  obtain st0' where su':
    "startup demo_env demo_config \<lparr>fs = no_files, trace = []\<rparr> = Inr (st0', 0)"
    by (simp add: driver_defs demo_defs path_defs Let_def)
  obtain st' where ok': "train_model demo_env demo_config no_files = Ok st'"
    by (simp add: driver_defs demo_defs path_defs upto.simps Let_def)
  have c': "max_steps demo_config = 1" "save_every demo_config = 1"
    "render_every demo_config = 1"
    by (simp_all add: demo_defs)
  from save_and_render_cadence [OF ok' su', of 0] c'
  have d: "checkpoint_path demo_config 0 \<in> set (saved_paths (trace (world st')))"
    "step_dir demo_config 0 \<in> set (made_dirs (trace (world st')))" by simp_all
  from ok' su' d have both: "\<exists>st' st0'.
        train_model demo_env demo_config no_files = Ok st' \<and>
        startup demo_env demo_config \<lparr>fs = no_files, trace = []\<rparr> = Inr (st0', 0) \<and>
        checkpoint_path demo_config 0 \<in> set (saved_paths (trace (world st'))) \<and>
        step_dir demo_config 0 \<in> set (made_dirs (trace (world st')))"
    by blast
  show ?thesis
    by (rule exI [of _ st], rule exI [of _ st0]) (use ok su c a b both in simp)
qed

section \<open>Two runs from the same start\<close>

lemma same_outcome_and_then:
  "same_outcome r1 r2 \<Longrightarrow> (\<And>a b. same_run a b \<Longrightarrow> same_outcome (f a) (f b)) \<Longrightarrow>
   same_outcome (and_then r1 f) (and_then r2 f)"
  by (cases r1; cases r2) (simp_all add: same_outcome_def and_then_def)

lemma stepping_same:
  "same_run st1 st2 \<Longrightarrow> same_outcome (stepping env c lg stp st1) (stepping env c lg stp st2)"
  by (auto simp: same_run_def same_outcome_def stepping_def loss_and_psnr_def Let_def py_last_def
      split: prod.splits sum.splits)

lemma saving_same:
  "same_run st1 st2 \<Longrightarrow> same_outcome (saving env c lg stp st1) (saving env c lg stp st2)"
  by (auto simp: same_run_def same_outcome_def saving_def eval_model_def Let_def py_last_def
      split: prod.splits sum.splits option.splits)

lemma rendering_same:
  "same_run st1 st2 \<Longrightarrow> same_outcome (rendering env c rd stp st1) (rendering env c rd stp st2)"
  by (auto simp: same_run_def same_outcome_def rendering_def Let_def write_images_trace)

lemma iteration_same:
  "same_run st1 st2 \<Longrightarrow>
   same_outcome (train_iteration env c rd lg stp st1) (train_iteration env c rd lg stp st2)"
  unfolding train_iteration_def
  by (intro same_outcome_and_then stepping_same saving_same rendering_same)

lemma loop_same:
  "same_run st1 st2 \<Longrightarrow>
   same_outcome (train_loop env c rd lg steps st1) (train_loop env c rd lg steps st2)"
proof (induction steps arbitrary: st1 st2)
  case Nil
  then show ?case by (simp add: same_outcome_def)
next
  case (Cons stp steps)
  show ?case
    by (simp, rule same_outcome_and_then [OF iteration_same [OF Cons.prems]]) (rule Cons.IH)
qed

lemma same_outcome_trace:
  "same_outcome r1 r2 \<Longrightarrow> trace (final_world r1) = trace (final_world r2)"
  by (cases r1; cases r2) (simp_all add: same_outcome_def same_run_def final_world_def)

text \<open>
  C8. The collaborators are functions, as the claim supposes. Two runs with the same
  collaborators and the same configuration that start from the same state (when resuming,
  the same file at the latest path; otherwise nothing is read) on file systems that may
  differ in everything else end the same way, with the same error if any, after the same
  sequence of calls: in particular they log the same scalars with the same values at the
  same steps.
\<close>

theorem runs_from_same_start_log_the_same:
  "(continue_training c \<longrightarrow> files1 (model_save_path c) = files2 (model_save_path c)) \<Longrightarrow>
   same_outcome (train_model env c files1) (train_model env c files2) \<and>
   scalars_of (trace (final_world (train_model env c files1))) =
     scalars_of (trace (final_world (train_model env c files2)))"
proof -
  assume start: "continue_training c \<longrightarrow> files1 (model_save_path c) = files2 (model_save_path c)"
  let ?w1 = "\<lparr>fs = files1, trace = []\<rparr>" and ?w2 = "\<lparr>fs = files2, trace = []\<rparr>"
  have so: "same_outcome (train_model env c files1) (train_model env c files2)"
  proof (cases "startup env c ?w1")
    case (Inl a)
    obtain e w where a: "a = (e, w)" by (cases a)
    from Inl a start have "startup env c ?w2 = Inl (e, ?w2)"
      by (auto simp: startup_def load_checkpoint_def torch_load_def Let_def
          split: prod.splits sum.splits if_splits option.splits file_content.splits)
    moreover from Inl a have "w = ?w1" using startup_Inl by blast
    ultimately show ?thesis using Inl a by (simp add: train_model_def same_outcome_def)
  next
    case (Inr b)
    obtain st1 start_step where b: "b = (st1, start_step)" by (cases b)
    from Inr b start obtain st2 where s2: "startup env c ?w2 = Inr (st2, start_step)"
      and sr: "same_run st1 st2"
      by (auto simp: startup_def load_checkpoint_def torch_load_def Let_def same_run_def
          split: prod.splits sum.splits if_splits option.splits file_content.splits)
    from loop_same [OF sr] Inr b s2 show ?thesis by (simp add: train_model_def)
  qed
  from so same_outcome_trace [OF so] show ?thesis by simp
qed

theorem runs_from_same_start_log_the_same_witness:
  "continue_training resume_config \<and>
   old_files (model_save_path resume_config) = other_files (model_save_path resume_config) \<and>
   old_files (train_log_dir resume_config) \<noteq> other_files (train_log_dir resume_config) \<and>
   length (scalars_of (trace (final_world (train_model demo_env resume_config old_files)))) = 10 \<and>
   scalars_of (trace (final_world (train_model demo_env resume_config old_files))) =
     scalars_of (trace (final_world (train_model demo_env resume_config other_files)))"
proof -
  have a: "continue_training resume_config" by (simp add: demo_defs)
  have b: "old_files (model_save_path resume_config) = other_files (model_save_path resume_config)"
    by (simp add: demo_defs path_defs)
  have d: "old_files (train_log_dir resume_config) \<noteq> other_files (train_log_dir resume_config)"
    by (simp add: demo_defs path_defs)
  have n: "length (scalars_of
      (trace (final_world (train_model demo_env resume_config old_files)))) = 10"
    by (simp add: final_world_def driver_defs demo_defs path_defs upto.simps Let_def)
  from runs_from_same_start_log_the_same [of resume_config old_files other_files demo_env] a b d n
  show ?thesis by simp
qed

section \<open>When the run completes\<close>

text \<open>
  The loop is a recursion on the list of steps, so \<^verbatim>\<open>train_model\<close> always ends. It ends
  normally when neither cadence is zero, the loss yields at least one PSNR level, the
  schedule reports at least one learning rate, evaluation (if enabled) sees at least one
  level, and the latest checkpoint exists when resuming.
\<close>

lemma iteration_returns:
  assumes "save_every c \<noteq> 0" and "render_every c \<noteq> 0"
    and "\<And>rgb px lm. snd (NeRFLoss env c rgb px lm) \<noteq> []"
    and "\<And>sch. get_last_lr env sch \<noteq> []"
    and "do_eval c \<Longrightarrow> (\<And>m rays. forward env m rays \<noteq> [])"
    and "eval_data st \<noteq> None \<Longrightarrow> do_eval c"
  shows "\<exists>st'. train_iteration env c rd lg stp st = Ok st' \<and>
               (eval_data st' \<noteq> None \<longrightarrow> do_eval c)"
proof -
  from assms(3) have psnr: "snd (loss_and_psnr env c st) \<noteq> []"
    by (simp add: loss_and_psnr_def Let_def split: prod.splits)
  have "\<exists>st1. stepping env c lg stp st = Ok st1 \<and> eval_data st1 = eval_data st"
    using psnr assms(4)
    by (auto simp: stepping_def Let_def py_last_def split: prod.splits)
  then obtain st1 where s1: "stepping env c lg stp st = Ok st1"
    and e1: "eval_data st1 = eval_data st" by blast
  have "\<exists>st2. saving env c lg stp st1 = Ok st2 \<and> (eval_data st2 \<noteq> None \<longrightarrow> do_eval c)"
  proof (cases "eval_data st1")
    case None
    with assms(1) show ?thesis by (simp add: saving_def Let_def)
  next
    case (Some k)
    from Some e1 have "eval_data st = Some k" by simp
    then have "eval_data st \<noteq> None" by simp
    then have de: "do_eval c" by (rule assms(6))
    then have fw: "\<And>m rays. forward env m rays \<noteq> []" by (rule assms(5))
    from Some assms(1) de fw show ?thesis
      by (simp add: saving_def eval_model_def Let_def py_last_def split: prod.splits)
  qed
  then obtain st2 where s2: "saving env c lg stp st1 = Ok st2"
    and e2: "eval_data st2 \<noteq> None \<longrightarrow> do_eval c" by blast
  have "\<exists>st3. rendering env c rd stp st2 = Ok st3 \<and> eval_data st3 = eval_data st2"
    using assms(2) by (simp add: rendering_def Let_def)
  then obtain st3 where s3: "rendering env c rd stp st2 = Ok st3"
    and e3: "eval_data st3 = eval_data st2" by blast
  from s1 s2 s3 e2 e3 show ?thesis by (simp add: train_iteration_def and_then_def)
qed

lemma loop_returns:
  assumes "save_every c \<noteq> 0" and "render_every c \<noteq> 0"
    and "\<And>rgb px lm. snd (NeRFLoss env c rgb px lm) \<noteq> []"
    and "\<And>sch. get_last_lr env sch \<noteq> []"
    and "do_eval c \<Longrightarrow> (\<And>m rays. forward env m rays \<noteq> [])"
  shows "eval_data st \<noteq> None \<longrightarrow> do_eval c \<Longrightarrow> \<exists>st'. train_loop env c rd lg steps st = Ok st'"
proof (induction steps arbitrary: st)
  case Nil
  show ?case by simp
next
  case (Cons stp steps)
  from Cons.prems have "eval_data st \<noteq> None \<Longrightarrow> do_eval c" by blast
  from iteration_returns [OF assms this, where rd = rd and lg = lg and stp = stp]
  obtain st1 where it: "train_iteration env c rd lg stp st = Ok st1"
    and e: "eval_data st1 \<noteq> None \<longrightarrow> do_eval c" by blast
  from Cons.IH [OF e] it show ?case by (simp add: and_then_def)
qed

lemma train_model_returns:
  assumes "save_every c \<noteq> 0" and "render_every c \<noteq> 0"
    and "\<And>rgb px lm. snd (NeRFLoss env c rgb px lm) \<noteq> []"
    and "\<And>sch. get_last_lr env sch \<noteq> []"
    and "do_eval c \<Longrightarrow> (\<And>m rays. forward env m rays \<noteq> [])"
    and "continue_training c \<Longrightarrow> \<exists>info. files (model_save_path c) = Some (CheckpointFile info)"
  shows "\<exists>st. train_model env c files = Ok st"
proof -
  have "\<exists>st0 start_step. startup env c \<lparr>fs = files, trace = []\<rparr> = Inr (st0, start_step) \<and>
          (eval_data st0 \<noteq> None \<longrightarrow> do_eval c)"
  proof (cases "continue_training c")
    case True
    with assms(6) obtain info where "files (model_save_path c) = Some (CheckpointFile info)"
      by blast
    with True show ?thesis
      by (simp add: startup_def load_checkpoint_def torch_load_def Let_def split: prod.splits)
  next
    case False
    then show ?thesis
      by (simp add: startup_def load_checkpoint_def Let_def split: prod.splits)
  qed
  then obtain st0 start_step where
    su: "startup env c \<lparr>fs = files, trace = []\<rparr> = Inr (st0, start_step)"
    and e: "eval_data st0 \<noteq> None \<longrightarrow> do_eval c" by blast
  from loop_returns [OF assms(1-5) e] su show ?thesis by (simp add: train_model_def)
qed

end
